theory Spec2Isabelle
  imports Main "HOL-Library.Sublist"
begin

section \<open>The host: requests, responses, network and cache storage\<close>

text \<open>
  The service worker \<^verbatim>\<open>sw.js\<close> runs on host primitives: \<^verbatim>\<open>fetch\<close>, the
  \<^verbatim>\<open>caches\<close> storage and \<^verbatim>\<open>Cache\<close> objects. A request carries the three
  properties the worker reads (\<^verbatim>\<open>request.method\<close>, \<^verbatim>\<open>request.url\<close>,
  \<^verbatim>\<open>request.mode\<close>); \<^verbatim>\<open>request.url\<close> is the serialised absolute URL, which is
  ASCII, so a \<open>string\<close> holds it. A response is its status, its headers and the bytes
  of its body (no bytes for a response without body); \<^verbatim>\<open>response.clone()\<close> is
  the same value.
\<close>

record request =
  "method" :: string
  url :: string
  mode :: string

record response =
  status :: nat
  headers :: "(string \<times> string) list"
  body :: string

text \<open>A rejected \<^verbatim>\<open>fetch\<close> promise.\<close>

datatype error = FetchFailed

text \<open>
  The environment of one event: the origin against which the worker resolves the
  relative URLs it writes (\<^verbatim>\<open>'/index.html'\<close> and the like), what the network
  answers to \<^verbatim>\<open>fetch(request)\<close> (a response of any status, or a rejection), and
  the text that \<^verbatim>\<open>response.text()\<close> decodes from the bytes of a body. The decoder
  is the host's (UTF-8, a byte order mark dropped, invalid bytes replaced); the worker
  only compares its results, so it is a parameter.
\<close>

record env =
  origin :: string
  fetch :: "request \<Rightarrow> error + response"
  utf8_decode :: "string \<Rightarrow> string"

definition resolve_url :: "env \<Rightarrow> string \<Rightarrow> string" where
  "resolve_url e path = origin e @ path"

text \<open>\<^verbatim>\<open>new Request(url)\<close>, as \<^verbatim>\<open>fetch(url)\<close> and \<^verbatim>\<open>cache.addAll\<close> build it.\<close>

definition mk_request :: "string \<Rightarrow> request" where
  "mk_request u = \<lparr>method = ''GET'', url = u, mode = ''cors''\<rparr>"

text \<open>\<^verbatim>\<open>s.startsWith(p)\<close>, of the worker and of the host alike.\<close>

definition startsWith :: "string \<Rightarrow> string \<Rightarrow> bool" where
  "startsWith s p = (take (length p) s = p)"

text \<open>
  A \<^verbatim>\<open>Cache\<close> is a request-response list. A request matches an entry when both are
  GET requests of the same URL, the fragment left aside, so an entry is kept under the
  URL without its fragment; a put that the host accepts removes the entry of the same
  key and appends the new one (\<open>replace_entry\<close>). The \<^verbatim>\<open>caches\<close> storage is the
  list of named caches in creation order, the order in which \<^verbatim>\<open>caches.keys()\<close> lists
  them and \<^verbatim>\<open>caches.match\<close> searches them. Left out: matching by the request headers
  that a \<^verbatim>\<open>Vary\<close> header of the stored response names.
\<close>

type_synonym cache = "(string \<times> response) list"
type_synonym cache_storage = "(string \<times> cache) list"

definition cache_key :: "string \<Rightarrow> string" where
  "cache_key u = takeWhile (\<lambda>c. c \<noteq> CHR ''#'') u"

definition cache_match :: "cache \<Rightarrow> string \<Rightarrow> response option" where
  "cache_match c u = map_of c (cache_key u)"

definition replace_entry :: "cache \<Rightarrow> string \<Rightarrow> response \<Rightarrow> cache" where
  "replace_entry c u r = filter (\<lambda>kv. fst kv \<noteq> cache_key u) c @ [(cache_key u, r)]"

text \<open>
  \<^verbatim>\<open>cache.put\<close> rejects, and leaves the cache as it is, when the URL of the request is not an
  \<^verbatim>\<open>http\<close> or \<^verbatim>\<open>https\<close> URL, when the status of the response is 206, and when a
  \<^verbatim>\<open>Vary\<close> header of the response lists \<^verbatim>\<open>*\<close>. Header names compare without
  regard to case; the values of a header are separated by commas and may be surrounded by
  blanks.
\<close>

definition lower_char :: "char \<Rightarrow> char" where
  "lower_char c =
     (case map_of (zip ''ABCDEFGHIJKLMNOPQRSTUVWXYZ'' ''abcdefghijklmnopqrstuvwxyz'') c of
        Some l \<Rightarrow> l
      | None \<Rightarrow> c)"

definition header_values :: "string \<Rightarrow> (string \<times> string) list \<Rightarrow> string list" where
  "header_values name hs =
     map snd (filter (\<lambda>h. map lower_char (fst h) = map lower_char name) hs)"

fun split_commas :: "string \<Rightarrow> string list" where
  "split_commas [] = [[]]"
| "split_commas (c # s) =
     (if c = CHR '','' then [] # split_commas s
      else (case split_commas s of
              [] \<Rightarrow> [[c]]
            | w # ws \<Rightarrow> (c # w) # ws))"

definition is_blank :: "char \<Rightarrow> bool" where
  "is_blank c = (c = CHR '' '' \<or> c = CHR 0x09)"

definition trim :: "string \<Rightarrow> string" where
  "trim s = rev (dropWhile is_blank (rev (dropWhile is_blank s)))"

definition vary_star :: "response \<Rightarrow> bool" where
  "vary_star r =
     list_ex (\<lambda>v. list_ex (\<lambda>f. trim f = ''*'') (split_commas v))
       (header_values ''Vary'' (headers r))"

definition put_accepts :: "string \<Rightarrow> response \<Rightarrow> bool" where
  "put_accepts u r =
     ((startsWith u ''http://'' \<or> startsWith u ''https://'')
      \<and> status r \<noteq> 206 \<and> \<not> vary_star r)"

definition cache_put :: "cache \<Rightarrow> string \<Rightarrow> response \<Rightarrow> cache" where
  "cache_put c u r = (if put_accepts u r then replace_entry c u r else c)"

definition caches_keys :: "cache_storage \<Rightarrow> string list" where
  "caches_keys cs = map fst cs"

definition caches_open :: "string \<Rightarrow> cache_storage \<Rightarrow> cache_storage" where
  "caches_open name cs = (if name \<in> set (caches_keys cs) then cs else cs @ [(name, [])])"

definition caches_delete :: "string \<Rightarrow> cache_storage \<Rightarrow> cache_storage" where
  "caches_delete name cs = filter (\<lambda>nc. fst nc \<noteq> name) cs"

fun caches_match :: "cache_storage \<Rightarrow> string \<Rightarrow> response option" where
  "caches_match [] u = None"
| "caches_match (nc # cs) u =
     (case cache_match (snd nc) u of Some r \<Rightarrow> Some r | None \<Rightarrow> caches_match cs u)"

text \<open>The entries of the cache of a given name; a cache that does not exist has none.\<close>

definition partition_entries :: "cache_storage \<Rightarrow> string \<Rightarrow> cache" where
  "partition_entries cs name = (case map_of cs name of Some c \<Rightarrow> c | None \<Rightarrow> [])"

text \<open>
  One write, as the worker issues it everywhere:
  \<^verbatim>\<open>caches.open(name).then((cache) => { cache.put(request, response); })\<close>.
  The promise is not awaited by the handler, so a handler returns the writes it has
  issued; \<open>settle\<close> applies them in the order of issue. A write opens its cache, which
  creates the cache when it does not exist, and then puts its entry, unless the host
  refuses the put or the callback throws before it reaches the put (a write without
  entry); the rejection that follows is only logged.
\<close>

type_synonym cache_write = "string \<times> (string \<times> response) option"

fun cache_put_in :: "string \<Rightarrow> string \<Rightarrow> response \<Rightarrow> cache_storage \<Rightarrow> cache_storage" where
  "cache_put_in name u r [] = []"
| "cache_put_in name u r (nc # cs) =
     (if fst nc = name then (fst nc, cache_put (snd nc) u r) # cs
      else nc # cache_put_in name u r cs)"

fun open_put :: "cache_storage \<Rightarrow> cache_write \<Rightarrow> cache_storage" where
  "open_put cs (name, None) = caches_open name cs"
| "open_put cs (name, Some (u, r)) = cache_put_in name u r (caches_open name cs)"

definition settle :: "cache_storage \<Rightarrow> cache_write list \<Rightarrow> cache_storage" where
  "settle cs ws = foldl open_put cs ws"

section \<open>String tests of the worker\<close>

text \<open>\<^verbatim>\<open>s.includes(p)\<close>.\<close>

fun includes_str :: "string \<Rightarrow> string \<Rightarrow> bool" where
  "includes_str [] p = (p = [])"
| "includes_str (c # s) p = (startsWith (c # s) p \<or> includes_str s p)"

text \<open>
  \<^verbatim>\<open>s.match(/\.(a|b|...)$/)\<close> is non-null when, from some position of \<open>s\<close>, a dot is
  followed by one of the alternatives and then by the end of the input (the regular
  expression has no \<^verbatim>\<open>m\<close> flag, so \<^verbatim>\<open>$\<close> is the end of the string). The search tries
  the positions from left to right.
\<close>

fun ext_regex_match :: "string list \<Rightarrow> string \<Rightarrow> bool" where
  "ext_regex_match alts [] = False"
| "ext_regex_match alts (c # s) = ((c = CHR ''.'' \<and> s \<in> set alts) \<or> ext_regex_match alts s)"

definition static_extensions :: "string list" where
  "static_extensions =
     [''css'', ''js'', ''png'', ''jpg'', ''jpeg'', ''gif'', ''ico'', ''svg'',
      ''woff'', ''woff2'', ''ttf'', ''eot'']"

definition image_extensions :: "string list" where
  "image_extensions = [''png'', ''jpg'', ''jpeg'', ''gif'', ''ico'', ''svg'']"

section \<open>The worker\<close>

definition STATIC_CACHE :: string where
  "STATIC_CACHE = ''static-cache-v1''"

definition DYNAMIC_CACHE :: string where
  "DYNAMIC_CACHE = ''dynamic-cache-v1''"

definition STATIC_ASSETS :: "string list" where
  "STATIC_ASSETS =
     [''/'', ''/index.html'', ''/manifest.json'', ''/icon-192x192.png'',
      ''/icon-512x512.png'', ''/logo.png'']"

subsection \<open>install\<close>

text \<open>
  \<^verbatim>\<open>cache.addAll\<close> fetches every asset and stores all of them, or rejects and stores
  none when a fetch rejects, a response is not ok (status outside 200..299) or a
  response is one that \<^verbatim>\<open>cache.put\<close> refuses. The listener catches the rejection and
  logs it.
\<close>

definition ok :: "response \<Rightarrow> bool" where
  "ok r = (200 \<le> status r \<and> status r \<le> 299)"

fun addAll_fetch :: "env \<Rightarrow> string list \<Rightarrow> cache_write list option" where
  "addAll_fetch e [] = Some []"
| "addAll_fetch e (p # ps) =
     (case fetch e (mk_request (resolve_url e p)) of
        Inl err \<Rightarrow> None
      | Inr r \<Rightarrow>
          if ok r \<and> put_accepts (resolve_url e p) r then
            (case addAll_fetch e ps of
               None \<Rightarrow> None
             | Some ws \<Rightarrow> Some ((STATIC_CACHE, Some (resolve_url e p, r)) # ws))
          else None)"

definition install :: "env \<Rightarrow> cache_storage \<Rightarrow> cache_storage" where
  "install e cs =
     (let cs1 = caches_open STATIC_CACHE cs
      in case addAll_fetch e STATIC_ASSETS of
           Some ws \<Rightarrow> settle cs1 ws
         | None \<Rightarrow> cs1)"

subsection \<open>activate\<close>

definition cacheWhitelist :: "string list" where
  "cacheWhitelist = [STATIC_CACHE, DYNAMIC_CACHE]"

text \<open>
  The sweep with its retain list as a parameter: for every name that
  \<^verbatim>\<open>caches.keys()\<close> lists, delete the cache unless the list includes the name.
\<close>

definition sweep :: "string list \<Rightarrow> cache_storage \<Rightarrow> cache_storage" where
  "sweep retain cs =
     foldl (\<lambda>acc cacheName. if cacheName \<notin> set retain then caches_delete cacheName acc else acc)
       cs (caches_keys cs)"

definition activate :: "cache_storage \<Rightarrow> cache_storage" where
  "activate cs = sweep cacheWhitelist cs"

subsection \<open>fetch\<close>

text \<open>
  What the listener does with the event: it returns without calling
  \<^verbatim>\<open>event.respondWith\<close> (the request passes through to the network untouched), or it
  responds with a promise that resolves with a response, resolves with
  \<^verbatim>\<open>undefined\<close> (the page sees a failed request), or rejects.
\<close>

datatype respondWith = PassThrough | Resolved "response option" | Rejected error

record outcome =
  responded :: respondWith
  writes :: "cache_write list"

definition placeholder_svg :: string where
  \<open>placeholder_svg =
     ''<svg xmlns="http://www.w3.org/2000/svg" width="100" height="100" viewBox="0 0 24 24"><path fill="#cccccc" d="M12 2C6.48 2 2 6.48 2 12s4.48 10 10 10 10-4.48 10-10S17.52 2 12 2zm-2 15l-5-5 1.41-1.41L10 14.17l7.59-7.59L19 8l-9 9z"/></svg>''\<close>

definition placeholder_image :: response where
  "placeholder_image =
     \<lparr>status = 200, headers = [(''Content-Type'', ''image/svg+xml'')], body = placeholder_svg\<rparr>"

text \<open>Lines 77 to 101: network first, then any cache, then the cached \<^verbatim>\<open>/index.html\<close>.\<close>

definition navigate_strategy :: "env \<Rightarrow> cache_storage \<Rightarrow> request \<Rightarrow> outcome" where
  "navigate_strategy e cs request =
     (case fetch e request of
        Inr response \<Rightarrow>
          \<lparr>responded = Resolved (Some response),
           writes = [(DYNAMIC_CACHE, Some (url request, response))]\<rparr>
      | Inl err \<Rightarrow>
          (case caches_match cs (url request) of
             Some cachedResponse \<Rightarrow> \<lparr>responded = Resolved (Some cachedResponse), writes = []\<rparr>
           | None \<Rightarrow>
               \<lparr>responded = Resolved (caches_match cs (resolve_url e ''/index.html'')),
                writes = []\<rparr>))"

text \<open>
  Lines 105 to 150: any cache first. On a hit the cached response is returned and a
  fetch is started whose response, if it resolves, is put into the dynamic cache; a
  rejection of that fetch is dropped. On a miss the network response is put into the
  dynamic cache and returned; when the fetch rejects, an image URL gets the placeholder
  and any other URL the rejection.
\<close>

definition static_asset_strategy :: "env \<Rightarrow> cache_storage \<Rightarrow> request \<Rightarrow> outcome" where
  "static_asset_strategy e cs request =
     (case caches_match cs (url request) of
        Some cachedResponse \<Rightarrow>
          \<lparr>responded = Resolved (Some cachedResponse),
           writes =
             (case fetch e request of
                Inr response \<Rightarrow> [(DYNAMIC_CACHE, Some (url request, response))]
              | Inl err \<Rightarrow> [])\<rparr>
      | None \<Rightarrow>
          (case fetch e request of
             Inr response \<Rightarrow>
               \<lparr>responded = Resolved (Some response),
                writes = [(DYNAMIC_CACHE, Some (url request, response))]\<rparr>
           | Inl err \<Rightarrow>
               if ext_regex_match image_extensions (url request)
               then \<lparr>responded = Resolved (Some placeholder_image), writes = []\<rparr>
               else \<lparr>responded = Rejected err, writes = []\<rparr>))"

text \<open>Lines 153 to 170: network first, a status 200 response is put into the dynamic cache.\<close>

definition api_data_strategy :: "env \<Rightarrow> cache_storage \<Rightarrow> request \<Rightarrow> outcome" where
  "api_data_strategy e cs request =
     (case fetch e request of
        Inr response \<Rightarrow>
          \<lparr>responded = Resolved (Some response),
           writes =
             (if status response = 200
              then [(DYNAMIC_CACHE, Some (url request, response))] else [])\<rparr>
      | Inl err \<Rightarrow> \<lparr>responded = Resolved (caches_match cs (url request)), writes = []\<rparr>)"

definition on_fetch :: "env \<Rightarrow> cache_storage \<Rightarrow> request \<Rightarrow> outcome" where
  "on_fetch e cs request =
     (if method request \<noteq> ''GET'' then \<lparr>responded = PassThrough, writes = []\<rparr>
      else if startsWith (url request) ''chrome-extension://''
        then \<lparr>responded = PassThrough, writes = []\<rparr>
      else if includes_str (url request) ''analytics'' \<or> includes_str (url request) ''telemetry''
        then \<lparr>responded = PassThrough, writes = []\<rparr>
      else if mode request = ''navigate'' then navigate_strategy e cs request
      else if ext_regex_match static_extensions (url request)
        then static_asset_strategy e cs request
      else api_data_strategy e cs request)"

text \<open>The storage once the writes of the event have been applied.\<close>

definition after_fetch :: "env \<Rightarrow> cache_storage \<Rightarrow> request \<Rightarrow> cache_storage" where
  "after_fetch e cs request = settle cs (writes (on_fetch e cs request))"

text \<open>
  The routing decision of the listener on its own: which of the guards of lines 66, 69,
  72, 77 and 105 is the first to hold.
\<close>

datatype classification = Navigate | StaticAsset | ApiData | Skip

definition classify :: "request \<Rightarrow> classification" where
  "classify request =
     (if method request \<noteq> ''GET'' then Skip
      else if startsWith (url request) ''chrome-extension://'' then Skip
      else if includes_str (url request) ''analytics'' \<or> includes_str (url request) ''telemetry''
        then Skip
      else if mode request = ''navigate'' then Navigate
      else if ext_regex_match static_extensions (url request) then StaticAsset
      else ApiData)"

definition run_strategy :: "classification \<Rightarrow> env \<Rightarrow> cache_storage \<Rightarrow> request \<Rightarrow> outcome" where
  "run_strategy c e cs request =
     (case c of
        Skip \<Rightarrow> \<lparr>responded = PassThrough, writes = []\<rparr>
      | Navigate \<Rightarrow> navigate_strategy e cs request
      | StaticAsset \<Rightarrow> static_asset_strategy e cs request
      | ApiData \<Rightarrow> api_data_strategy e cs request)"

subsection \<open>checkForUpdates\<close>

text \<open>
  The function returns nothing in every case; what it does shows in its effects. The
  result names the path taken: the \<^verbatim>\<open>catch\<close> block that logs
  \<^verbatim>\<open>Update check failed\<close>, the call of \<^verbatim>\<open>showNotification\<close>, or neither.
  It opens the static cache first, which creates it when it does not exist, and it
  compares the texts that \<^verbatim>\<open>text()\<close> decodes from the two bodies. The
  \<^verbatim>\<open>no-store\<close> option of the fetch concerns the HTTP cache of the browser, which is
  not part of the state here.
\<close>

datatype update_result = UpToDate | NewVersionAvailable | CheckFailed

record notification =
  title :: string
  text_body :: string
  icon :: string
  tag :: string

record update_outcome =
  result :: update_result
  notifications :: "notification list"
  storage :: cache_storage

definition update_notification :: notification where
  "update_notification =
     \<lparr>title = ''AWA Calculator Update'',
      text_body = ''A new version is available. Refresh to update.'',
      icon = ''/icon-192x192.png'',
      tag = ''update-available''\<rparr>"

definition checkForUpdates :: "env \<Rightarrow> cache_storage \<Rightarrow> update_outcome" where
  "checkForUpdates e cs =
     (let cs1 = caches_open STATIC_CACHE cs;
          cache = partition_entries cs1 STATIC_CACHE
      in case fetch e (mk_request (resolve_url e ''/index.html'')) of
           Inl err \<Rightarrow> \<lparr>result = CheckFailed, notifications = [], storage = cs1\<rparr>
         | Inr response \<Rightarrow>
             if status response = 200 then
               (case cache_match cache (resolve_url e ''/index.html'') of
                  None \<Rightarrow> \<lparr>result = UpToDate, notifications = [], storage = cs1\<rparr>
                | Some cachedResponse \<Rightarrow>
                    if utf8_decode e (body cachedResponse) \<noteq> utf8_decode e (body response)
                    then \<lparr>result = NewVersionAvailable,
                          notifications = [update_notification], storage = cs1\<rparr>
                    else \<lparr>result = UpToDate, notifications = [], storage = cs1\<rparr>)
             else \<lparr>result = UpToDate, notifications = [], storage = cs1\<rparr>)"

subsection \<open>message\<close>

text \<open>
  \<^verbatim>\<open>event.data\<close> may be absent (or falsy). When present, \<^verbatim>\<open>event.data.type\<close> is a
  string or something else, which equals neither of the two names, and
  \<^verbatim>\<open>JSON.stringify(event.data.payload)\<close> gives a text, gives \<^verbatim>\<open>undefined\<close> (an
  absent payload), or throws (a cyclic payload, a BigInt). The response built from a
  text has the text as its body and the content type of a string body; the response
  built from \<^verbatim>\<open>undefined\<close> has no body and no content type. The text is evaluated
  inside the callback of \<^verbatim>\<open>caches.open\<close>, so when it throws the cache has been opened and
  nothing is put.
\<close>

datatype stringified = JsonText string | JsonUndefined | JsonThrows

record message_data =
  msg_type :: "string option"
  payload_json :: stringified

record message_outcome =
  skipWaiting :: bool
  msg_writes :: "cache_write list"

definition payload_response :: "stringified \<Rightarrow> response option" where
  "payload_response j =
     (case j of
        JsonText t \<Rightarrow>
          Some \<lparr>status = 200,
                headers = [(''Content-Type'', ''text/plain;charset=UTF-8'')],
                body = t\<rparr>
      | JsonUndefined \<Rightarrow> Some \<lparr>status = 200, headers = [], body = []\<rparr>
      | JsonThrows \<Rightarrow> None)"

definition on_message :: "env \<Rightarrow> message_data option \<Rightarrow> message_outcome" where
  "on_message e data =
     \<lparr>skipWaiting =
        (case data of None \<Rightarrow> False | Some d \<Rightarrow> msg_type d = Some ''SKIP_WAITING''),
      msg_writes =
        (case data of
           None \<Rightarrow> []
         | Some d \<Rightarrow>
             if msg_type d = Some ''CACHE_DATA''
             then [(DYNAMIC_CACHE,
                    map_option (Pair (resolve_url e ''/api/calculation-data''))
                      (payload_response (payload_json d)))]
             else [])\<rparr>"

section \<open>The classifier in the words of the specification\<close>

text \<open>
  The six rules as the specification words them, to be compared with \<open>classify\<close>. Rule 2
  looks at the scheme of the URL, the part before its first colon, and skips the schemes
  under which browsers serve the files of their extensions. Rule 5 looks at the path of
  the URL: the URL up to its query string or fragment.
\<close>

definition url_scheme :: "string \<Rightarrow> string" where
  "url_scheme u = takeWhile (\<lambda>c. c \<noteq> CHR '':'') u"

definition extension_schemes :: "string list" where
  "extension_schemes =
     [''chrome-extension'', ''moz-extension'', ''safari-web-extension'', ''safari-extension'',
      ''ms-browser-extension'']"

definition url_path :: "string \<Rightarrow> string" where
  "url_path u = takeWhile (\<lambda>c. c \<noteq> CHR ''?'' \<and> c \<noteq> CHR ''#'') u"

definition has_extension :: "string list \<Rightarrow> string \<Rightarrow> bool" where
  "has_extension exts p = list_ex (\<lambda>x. suffix (CHR ''.'' # x) p) exts"

definition classify_spec :: "request \<Rightarrow> classification" where
  "classify_spec request =
     (if method request \<noteq> ''GET'' then Skip
      else if url_scheme (url request) \<in> set extension_schemes then Skip
      else if sublist ''analytics'' (url request) \<or> sublist ''telemetry'' (url request) then Skip
      else if mode request = ''navigate'' then Navigate
      else if has_extension static_extensions (url_path (url request)) then StaticAsset
      else ApiData)"

section \<open>Concrete environments and requests\<close>

definition awa_origin :: string where
  "awa_origin = ''https://awa.example''"

text \<open>A network that rejects every fetch, and one that serves a table of URLs.\<close>

definition offline :: "request \<Rightarrow> error + response" where
  "offline request = Inl FetchFailed"

definition serve :: "(string \<times> response) list \<Rightarrow> request \<Rightarrow> error + response" where
  "serve site request =
     (case map_of site (url request) of Some r \<Rightarrow> Inr r | None \<Rightarrow> Inl FetchFailed)"

definition page :: "nat \<Rightarrow> string \<Rightarrow> response" where
  "page code t = \<lparr>status = code, headers = [(''Content-Type'', ''text/html'')], body = t\<rparr>"

text \<open>A deployment of the application: every install-time asset, answered with \<open>t\<close>.\<close>

definition deployment :: "string \<Rightarrow> (string \<times> response) list" where
  "deployment t = map (\<lambda>p. (awa_origin @ p, page 200 t)) STATIC_ASSETS"

text \<open>
  The decoder on a body that is valid UTF-8, the text being held as its UTF-8 bytes: it
  drops a leading byte order mark.
\<close>

definition utf8_valid_text :: "string \<Rightarrow> string" where
  "utf8_valid_text b = (if startsWith b [CHR 0xEF, CHR 0xBB, CHR 0xBF] then drop 3 b else b)"

definition serving :: "(string \<times> response) list \<Rightarrow> env" where
  "serving site = \<lparr>origin = awa_origin, fetch = serve site, utf8_decode = utf8_valid_text\<rparr>"

definition online :: "string \<Rightarrow> env" where
  "online t = serving (deployment t)"

definition no_network :: env where
  "no_network = \<lparr>origin = awa_origin, fetch = offline, utf8_decode = utf8_valid_text\<rparr>"

definition get_request :: "string \<Rightarrow> string \<Rightarrow> request" where
  "get_request m path = \<lparr>method = ''GET'', url = awa_origin @ path, mode = m\<rparr>"

text \<open>
  The storage of a worker installed from deployment \<open>v1\<close>, and after a navigation to
  the root document that the network answered from deployment \<open>v2\<close>.
\<close>

definition installed_v1 :: cache_storage where
  "installed_v1 = install (online ''v1'') []"

definition visited_v2 :: cache_storage where
  "visited_v2 = after_fetch (online ''v2'') installed_v1 (get_request ''navigate'' ''/'')"

section \<open>Facts about the storage\<close>

lemma ext_regex_match_iff:
  "ext_regex_match alts s \<longleftrightarrow> (\<exists>x\<in>set alts. suffix (CHR ''.'' # x) s)"
proof (induction s)
  case Nil
  then show ?case by simp
next
  case (Cons c s)
  then show ?case by (auto simp: suffix_Cons)
qed

lemma startsWith_iff: "startsWith s p \<longleftrightarrow> prefix p s"
  by (auto simp: startsWith_def prefix_def) (metis append_eq_conv_conj)

lemma includes_str_iff: "includes_str s p \<longleftrightarrow> sublist p s"
  by (induction s) (auto simp: startsWith_iff sublist_Cons_right)

lemma sweep_foldl:
  "foldl (\<lambda>acc cacheName. if cacheName \<notin> set retain then caches_delete cacheName acc else acc) acc names
     = filter (\<lambda>nc. fst nc \<in> set retain \<or> fst nc \<notin> set names) acc"
proof (induction names arbitrary: acc)
  case Nil
  then show ?case by simp
next
  case (Cons n names)
  show ?case by (auto simp: Cons.IH caches_delete_def intro: filter_cong)
qed

lemma sweep_filter: "sweep retain cs = filter (\<lambda>nc. fst nc \<in> set retain) cs"
  unfolding sweep_def sweep_foldl caches_keys_def by (auto intro: filter_cong)

lemma partition_entries_filter:
  "P name \<Longrightarrow> partition_entries (filter (\<lambda>nc. P (fst nc)) cs) name = partition_entries cs name"
  unfolding partition_entries_def by (induction cs) auto

lemma partition_entries_open:
  "partition_entries (caches_open n cs) name = partition_entries cs name"
  unfolding partition_entries_def caches_open_def caches_keys_def
  by (auto simp: map_add_def map_of_eq_None_iff split: option.splits dest: map_of_SomeD)
    (force dest: map_of_SomeD)+

lemma caches_match_append:
  "caches_match (cs @ ds) u = (case caches_match cs u of Some r \<Rightarrow> Some r | None \<Rightarrow> caches_match ds u)"
  by (induction cs) (auto split: option.splits)

lemma caches_match_open: "caches_match (caches_open n cs) u = caches_match cs u"
  by (auto simp: caches_open_def caches_match_append cache_match_def split: option.splits)

lemma cache_match_replace:
  "cache_match (replace_entry c u r) v = (if cache_key v = cache_key u then Some r else cache_match c v)"
  unfolding cache_match_def replace_entry_def
  by (induction c) (auto simp: map_add_def split: option.splits)

lemma cache_match_put:
  "cache_match (cache_put c u r) v
     = (if put_accepts u r \<and> cache_key v = cache_key u then Some r else cache_match c v)"
  by (simp add: cache_put_def cache_match_replace)

lemma cache_put_in_refused: "\<not> put_accepts u r \<Longrightarrow> cache_put_in n u r cs = cs"
  by (induction cs) (auto simp: cache_put_def)

lemma map_of_put_in:
  "map_of (cache_put_in n u r cs) name
     = (if name = n then map_option (\<lambda>c. cache_put c u r) (map_of cs n) else map_of cs name)"
  by (induction cs) auto

lemma partition_entries_put_in:
  "n \<in> fst ` set cs \<Longrightarrow>
   partition_entries (cache_put_in n u r cs) name
     = (if name = n then cache_put (partition_entries cs n) u r else partition_entries cs name)"
  unfolding partition_entries_def map_of_put_in
  by (auto simp: map_of_eq_None_iff split: option.splits)

lemma open_mem: "n \<in> fst ` set (caches_open n cs)"
  by (auto simp: caches_open_def caches_keys_def)

lemma partition_entries_open_put:
  "partition_entries (open_put cs (n, Some (u, r))) name
     = (if name = n then cache_put (partition_entries cs n) u r else partition_entries cs name)"
  by (simp add: partition_entries_put_in partition_entries_open open_mem)

lemma partition_entries_open_only:
  "partition_entries (open_put cs (n, None)) name = partition_entries cs name"
  by (simp add: partition_entries_open)

lemma lookup_open_put:
  "cache_match (partition_entries (open_put cs (n, Some (u, r))) name) v
     = (if put_accepts u r \<and> name = n \<and> cache_key v = cache_key u then Some r
        else cache_match (partition_entries cs name) v)"
  by (simp add: partition_entries_open_put cache_match_put del: open_put.simps)

lemma caches_match_put_in:
  "caches_match cs u = None \<Longrightarrow> put_accepts u r \<Longrightarrow> n \<in> fst ` set cs \<Longrightarrow>
   caches_match (cache_put_in n u r cs) u = Some r"
  by (induction cs) (auto simp: cache_match_put split: option.splits)

lemma caches_match_open_put:
  "caches_match cs u = None \<Longrightarrow> put_accepts u r \<Longrightarrow>
   caches_match (open_put cs (n, Some (u, r))) u = Some r"
  by (simp add: caches_match_put_in caches_match_open open_mem)

lemma caches_match_open_put_refused:
  "\<not> put_accepts u r \<Longrightarrow> caches_match (open_put cs (n, Some (u, r))) v = caches_match cs v"
  by (simp add: caches_match_open cache_put_in_refused)

lemma partition_entries_settle:
  "list_all (\<lambda>w. fst w \<noteq> name) ws \<Longrightarrow> partition_entries (settle cs ws) name = partition_entries cs name"
  unfolding settle_def
proof (induction ws arbitrary: cs)
  case Nil
  then show ?case by simp
next
  case (Cons w ws)
  obtain n x where w: "w = (n, x)" by (cases w) auto
  show ?case
  proof (cases x)
    case None
    with w Cons show ?thesis
      by (auto simp: partition_entries_open_only simp del: open_put.simps)
  next
    case (Some ur)
    obtain u r where "ur = (u, r)" by (cases ur) auto
    with Some w Cons show ?thesis
      by (auto simp: partition_entries_open_put simp del: open_put.simps)
  qed
qed

lemma static_not_dynamic: "STATIC_CACHE \<noteq> DYNAMIC_CACHE"
  by (simp add: STATIC_CACHE_def DYNAMIC_CACHE_def)

lemma on_fetch_run_strategy: "on_fetch e cs request = run_strategy (classify request) e cs request"
  by (simp add: on_fetch_def run_strategy_def classify_def)

lemma writes_on_fetch_dynamic: "list_all (\<lambda>w. fst w = DYNAMIC_CACHE) (writes (on_fetch e cs request))"
  by (simp add: on_fetch_def navigate_strategy_def static_asset_strategy_def api_data_strategy_def
      split: sum.splits option.splits)

lemma writes_on_message_dynamic: "list_all (\<lambda>w. fst w = DYNAMIC_CACHE) (msg_writes (on_message e data))"
  by (simp add: on_message_def split: option.splits)


lemma partition_entries_after_fetch:
  "name \<noteq> DYNAMIC_CACHE \<Longrightarrow>
   partition_entries (after_fetch e cs request) name = partition_entries cs name"
  unfolding after_fetch_def
  by (rule partition_entries_settle)
     (use writes_on_fetch_dynamic[of e cs request] in \<open>auto simp: list_all_iff\<close>)

lemma storage_checkForUpdates: "storage (checkForUpdates e cs) = caches_open STATIC_CACHE cs"
  by (simp add: checkForUpdates_def Let_def split: sum.splits option.splits)

section \<open>Activation\<close>

text \<open>
  C7. The activation sweep keeps exactly the caches whose name is on the retain list
  \<open>static-cache-v1\<close>, \<open>dynamic-cache-v1\<close>: the caches after the sweep are the caches
  before it filtered by the list, in their order and with their entries. From
  \<open>static-cache-v1\<close>, \<open>dynamic-cache-v1\<close>, \<open>old-cache-v0\<close> the first two remain.
\<close>

theorem sweep_retains_whitelist:
  "activate cs = filter (\<lambda>nc. fst nc \<in> {STATIC_CACHE, DYNAMIC_CACHE}) cs
   \<and> set (caches_keys (activate cs)) = set (caches_keys cs) \<inter> {STATIC_CACHE, DYNAMIC_CACHE}
   \<and> caches_keys (activate [(STATIC_CACHE, a), (DYNAMIC_CACHE, b), (''old-cache-v0'', c)])
       = [STATIC_CACHE, DYNAMIC_CACHE]
   \<and> activate [(STATIC_CACHE, a), (DYNAMIC_CACHE, b), (''old-cache-v0'', c)]
       = [(STATIC_CACHE, a), (DYNAMIC_CACHE, b)]
   \<and> partition_entries (activate cs) STATIC_CACHE = partition_entries cs STATIC_CACHE
   \<and> partition_entries (activate cs) DYNAMIC_CACHE = partition_entries cs DYNAMIC_CACHE"
proof -
  have f: "activate cs = filter (\<lambda>nc. fst nc \<in> {STATIC_CACHE, DYNAMIC_CACHE}) cs" for cs
    by (simp add: activate_def sweep_filter cacheWhitelist_def)
  have keys: "set (caches_keys (activate cs)) = set (caches_keys cs) \<inter> {STATIC_CACHE, DYNAMIC_CACHE}"
    unfolding f caches_keys_def by auto
  have old: "''old-cache-v0'' \<noteq> STATIC_CACHE" "''old-cache-v0'' \<noteq> DYNAMIC_CACHE"
    by (simp_all add: STATIC_CACHE_def DYNAMIC_CACHE_def)
  have ex: "activate [(STATIC_CACHE, a), (DYNAMIC_CACHE, b), (''old-cache-v0'', c)]
       = [(STATIC_CACHE, a), (DYNAMIC_CACHE, b)]"
    unfolding f using old by simp
  have exk: "caches_keys (activate [(STATIC_CACHE, a), (DYNAMIC_CACHE, b), (''old-cache-v0'', c)])
       = [STATIC_CACHE, DYNAMIC_CACHE]"
    unfolding ex by (simp add: caches_keys_def)
  have ps: "partition_entries (activate cs) STATIC_CACHE = partition_entries cs STATIC_CACHE"
    unfolding f by (rule partition_entries_filter) simp
  have pd: "partition_entries (activate cs) DYNAMIC_CACHE = partition_entries cs DYNAMIC_CACHE"
    unfolding f by (rule partition_entries_filter) simp
  show ?thesis using f keys ex exk ps pd by blast
qed

section \<open>Facts about the concrete environments\<close>

lemma put_accepts_page: "put_accepts (awa_origin @ p) (page code t) \<longleftrightarrow> code \<noteq> 206"
  by (simp add: put_accepts_def awa_origin_def startsWith_def page_def vary_star_def
      header_values_def lower_char_def)

lemma cache_key_awa: "CHR ''#'' \<notin> set p \<Longrightarrow> cache_key (awa_origin @ p) = awa_origin @ p"
  unfolding cache_key_def
  by (rule takeWhile_eq_all_conv[THEN iffD2]) (auto simp: awa_origin_def)

lemma installed_v1_eq:
  "installed_v1 =
     [(STATIC_CACHE,
       [(awa_origin @ ''/'', page 200 ''v1''),
        (awa_origin @ ''/index.html'', page 200 ''v1''),
        (awa_origin @ ''/manifest.json'', page 200 ''v1''),
        (awa_origin @ ''/icon-192x192.png'', page 200 ''v1''),
        (awa_origin @ ''/icon-512x512.png'', page 200 ''v1''),
        (awa_origin @ ''/logo.png'', page 200 ''v1'')])]"
proof -
  have acc: "put_accepts (awa_origin @ p) (page 200 ''v1'')" for p
    by (simp add: put_accepts_page)
  have ok: "ok (page 200 ''v1'')"
    by (simp add: ok_def page_def)
  show ?thesis
    by (simp add: installed_v1_def install_def online_def serving_def deployment_def
        STATIC_ASSETS_def serve_def mk_request_def resolve_url_def ok acc settle_def
        caches_open_def caches_keys_def cache_put_def replace_entry_def cache_key_awa)
qed

lemma classify_root: "classify (get_request ''navigate'' ''/'') = Navigate"
  by (simp add: classify_def get_request_def awa_origin_def startsWith_def)

lemma fetch_online_root:
  "fetch (online t) (get_request m ''/'') = Inr (page 200 t)"
  by (simp add: online_def serving_def serve_def deployment_def STATIC_ASSETS_def get_request_def)

lemma on_fetch_root_online:
  "on_fetch (online t) cs (get_request ''navigate'' ''/'')
     = \<lparr>responded = Resolved (Some (page 200 t)),
        writes = [(DYNAMIC_CACHE, Some (awa_origin @ ''/'', page 200 t))]\<rparr>"
proof -
  have "url (get_request ''navigate'' ''/'') = awa_origin @ ''/''"
    by (simp add: get_request_def)
  then show ?thesis
    by (simp add: on_fetch_run_strategy classify_root run_strategy_def navigate_strategy_def
        fetch_online_root)
qed

lemma visited_v2_eq:
  "visited_v2 = installed_v1 @ [(DYNAMIC_CACHE, [(awa_origin @ ''/'', page 200 ''v2'')])]"
  unfolding visited_v2_def after_fetch_def on_fetch_root_online
  by (simp add: settle_def put_accepts_page caches_open_def caches_keys_def installed_v1_eq
      STATIC_CACHE_def DYNAMIC_CACHE_def cache_put_def replace_entry_def cache_key_awa)

lemma navigate_offline:
  "classify request = Navigate \<Longrightarrow> fetch e request = Inl err \<Longrightarrow>
   responded (on_fetch e cs request)
     = Resolved (case caches_match cs (url request) of
                   Some cachedResponse \<Rightarrow> Some cachedResponse
                 | None \<Rightarrow> caches_match cs (resolve_url e ''/index.html''))"
  by (simp add: on_fetch_run_strategy run_strategy_def navigate_strategy_def split: option.splits)

lemma fetch_no_network: "fetch no_network request = Inl FetchFailed"
  by (simp add: no_network_def offline_def)

lemma caches_match_visited_root:
  "caches_match visited_v2 (url (get_request ''navigate'' ''/'')) = Some (page 200 ''v1'')"
  by (simp add: visited_v2_eq installed_v1_eq cache_match_def get_request_def cache_key_awa)

section \<open>Navigation\<close>

text \<open>
  C1. A navigation stores the network response in the dynamic cache, and when the
  network fails the lookup is \<^verbatim>\<open>caches.match(request)\<close>, which takes the first cache
  in creation order that holds the request. The root document is among the install-time
  assets, so the static cache, created at install, comes first: after an install from
  deployment \<open>v1\<close> and a navigation to the root answered with \<open>v2\<close> and stored, the
  offline navigation is answered with the install-time \<open>v1\<close>, not with the \<open>v2\<close> that
  was stored last.
\<close>

theorem navigate_offline_serves_install_copy:
  "responded (on_fetch (online ''v2'') installed_v1 (get_request ''navigate'' ''/''))
     = Resolved (Some (page 200 ''v2''))
   \<and> cache_match (partition_entries visited_v2 DYNAMIC_CACHE) (url (get_request ''navigate'' ''/''))
     = Some (page 200 ''v2'')
   \<and> responded (on_fetch no_network visited_v2 (get_request ''navigate'' ''/''))
     = Resolved (Some (page 200 ''v1''))
   \<and> page 200 ''v1'' \<noteq> page 200 ''v2''"
proof -
  have a: "responded (on_fetch (online ''v2'') installed_v1 (get_request ''navigate'' ''/''))
     = Resolved (Some (page 200 ''v2''))"
    by (simp add: on_fetch_root_online)
  have b: "cache_match (partition_entries visited_v2 DYNAMIC_CACHE) (url (get_request ''navigate'' ''/''))
     = Some (page 200 ''v2'')"
    by (simp add: visited_v2_eq installed_v1_eq partition_entries_def cache_match_def
        get_request_def STATIC_CACHE_def DYNAMIC_CACHE_def cache_key_awa)
  have c: "responded (on_fetch no_network visited_v2 (get_request ''navigate'' ''/''))
     = Resolved (Some (page 200 ''v1''))"
    by (simp add: navigate_offline [OF classify_root fetch_no_network] caches_match_visited_root)
  have d: "page 200 ''v1'' \<noteq> page 200 ''v2''"
    by (simp add: page_def)
  show ?thesis using a b c d by blast
qed

text \<open>
  In general the offline navigation is answered from the first cache in creation order
  that holds the request: with the response stored last when no cache created before the
  dynamic cache holds it, and with the entry of that older cache otherwise.
\<close>

lemma caches_match_put_in_first:
  "put_accepts u r \<Longrightarrow> n \<in> fst ` set cs \<Longrightarrow>
   caches_match (cache_put_in n u r cs) u
     = (case caches_match (takeWhile (\<lambda>nc. fst nc \<noteq> n) cs) u of
          Some older \<Rightarrow> Some older
        | None \<Rightarrow> Some r)"
  by (induction cs) (force simp: cache_match_put split: option.splits)+

lemma takeWhile_caches_open:
  "takeWhile (\<lambda>nc. fst nc \<noteq> n) (caches_open n cs) = takeWhile (\<lambda>nc. fst nc \<noteq> n) cs"
proof -
  have "n \<notin> fst ` set ds \<Longrightarrow>
        takeWhile (\<lambda>nc. fst nc \<noteq> n) (ds @ [(n, c)]) = takeWhile (\<lambda>nc. fst nc \<noteq> n) ds" for ds c
    by (induction ds) auto
  note absent = this
  show ?thesis
  proof (cases "n \<in> set (caches_keys cs)")
    case True
    then show ?thesis by (simp add: caches_open_def)
  next
    case False
    then have "n \<notin> fst ` set cs" by (simp add: caches_keys_def)
    then have "takeWhile (\<lambda>nc. fst nc \<noteq> n) (cs @ [(n, [])]) = takeWhile (\<lambda>nc. fst nc \<noteq> n) cs"
      by (rule absent)
    with False show ?thesis by (simp only: caches_open_def if_False)
  qed
qed

lemma navigate_offline_first_match:
  assumes "classify request = Navigate"
    and "fetch e request = Inr response"
    and "put_accepts (url request) response"
    and "fetch e' request = Inl err"
  shows "responded (on_fetch e' (after_fetch e cs request) request)
           = Resolved (Some (case caches_match (takeWhile (\<lambda>nc. fst nc \<noteq> DYNAMIC_CACHE) cs) (url request) of
                               Some older \<Rightarrow> older
                             | None \<Rightarrow> response))"
proof -
  have "after_fetch e cs request = open_put cs (DYNAMIC_CACHE, Some (url request, response))"
    using assms(1,2)
    by (simp add: after_fetch_def on_fetch_run_strategy run_strategy_def navigate_strategy_def
        settle_def)
  then have "caches_match (after_fetch e cs request) (url request)
      = (case caches_match (takeWhile (\<lambda>nc. fst nc \<noteq> DYNAMIC_CACHE) cs) (url request) of
           Some older \<Rightarrow> Some older
         | None \<Rightarrow> Some response)"
    using assms(3) by (simp add: caches_match_put_in_first open_mem takeWhile_caches_open)
  then show ?thesis
    using navigate_offline [OF assms(1,4), of "after_fetch e cs request"]
    by (simp split: option.splits)
qed

section \<open>Classification\<close>

text \<open>
  C2. The listener routes by \<open>classify\<close>, a function of the method, the URL and the mode
  of the request alone, and \<open>classify\<close> applies the rules in order: a method other than
  GET, a URL that starts with \<open>chrome-extension://\<close>, a URL that contains
  \<open>analytics\<close> or \<open>telemetry\<close> are skipped; a request of mode \<open>navigate\<close> is a
  navigation; a request whose URL as a whole string (query string and fragment included)
  ends with a dot and one of the twelve extensions is a static asset; every other request
  is an API or data request.
\<close>

theorem classify_rules:
  "on_fetch e cs request = run_strategy (classify request) e cs request
   \<and> classify request =
       (if method request \<noteq> ''GET'' then Skip
        else if prefix ''chrome-extension://'' (url request) then Skip
        else if sublist ''analytics'' (url request) \<or> sublist ''telemetry'' (url request) then Skip
        else if mode request = ''navigate'' then Navigate
        else if has_extension static_extensions (url request) then StaticAsset
        else ApiData)"
  by (simp add: on_fetch_run_strategy classify_def startsWith_iff includes_str_iff
      ext_regex_match_iff has_extension_def list_ex_iff)

text \<open>
  The rules of the specification differ in two places. Rule 5 looks at the path, so that
  \<open>app.js?v=2\<close> would be a static asset; the listener tests the end of the whole URL and
  takes it for an API request. Rule 2 skips every browser-extension scheme; the listener
  tests for \<open>chrome-extension://\<close> only and takes a script under \<open>moz-extension://\<close>
  for a static asset.
\<close>

theorem classify_spec_counterexample:
  "classify \<lparr>method = ''GET'', url = ''https://awa.example/app.js?v=2'', mode = ''no-cors''\<rparr> = ApiData
   \<and> classify_spec \<lparr>method = ''GET'', url = ''https://awa.example/app.js?v=2'', mode = ''no-cors''\<rparr>
       = StaticAsset
   \<and> classify \<lparr>method = ''GET'', url = ''moz-extension://7c1e/app.js'', mode = ''no-cors''\<rparr>
       = StaticAsset
   \<and> classify_spec \<lparr>method = ''GET'', url = ''moz-extension://7c1e/app.js'', mode = ''no-cors''\<rparr>
       = Skip"
  by (simp add: classify_def classify_spec_def startsWith_def static_extensions_def
      has_extension_def url_path_def url_scheme_def extension_schemes_def suffix_to_prefix
      sublist_Cons_right)

text \<open>
  The two classifiers agree on every URL without query string and fragment whose scheme
  is no extension scheme other than the one the listener tests for.
\<close>

lemma classify_agrees:
  "url_path (url request) = url request \<Longrightarrow>
   url_scheme (url request) \<in> set extension_schemes \<longleftrightarrow> prefix ''chrome-extension://'' (url request) \<Longrightarrow>
   classify request = classify_spec request"
  by (simp add: classify_def classify_spec_def startsWith_iff includes_str_iff
      ext_regex_match_iff has_extension_def list_ex_iff)

section \<open>More facts about the concrete environments\<close>

lemma classify_logo: "classify (get_request ''no-cors'' ''/logo.png'') = StaticAsset"
  by (simp add: classify_def get_request_def awa_origin_def startsWith_def static_extensions_def)

lemma classify_appjs: "classify (get_request ''no-cors'' ''/app.js'') = StaticAsset"
  by (simp add: classify_def get_request_def awa_origin_def startsWith_def static_extensions_def)

lemma classify_api: "classify (get_request ''cors'' ''/api/rates'') = ApiData"
  by (simp add: classify_def get_request_def awa_origin_def startsWith_def static_extensions_def)

lemma fetch_serving_one:
  "fetch (serving [(awa_origin @ path, r)]) (get_request m path) = Inr r"
  by (simp add: serving_def serve_def get_request_def)

lemma url_get_request: "url (get_request m path) = awa_origin @ path"
  by (simp add: get_request_def)


lemma fetch_online_index:
  "fetch (online t) (mk_request (resolve_url (online t) ''/index.html'')) = Inr (page 200 t)"
  by (simp add: online_def serving_def serve_def deployment_def STATIC_ASSETS_def mk_request_def
      resolve_url_def)

lemma caches_match_installed_logo:
  "caches_match installed_v1 (url (get_request m ''/logo.png'')) = Some (page 200 ''v1'')"
  by (simp add: installed_v1_eq cache_match_def get_request_def cache_key_awa)

lemma caches_match_installed_none:
  "caches_match installed_v1 (url (get_request m ''/app.js'')) = None"
  "caches_match installed_v1 (url (get_request m ''/api/rates'')) = None"
  by (simp_all add: installed_v1_eq cache_match_def get_request_def cache_key_awa)

lemma result_checkForUpdates_installed:
  "result (checkForUpdates (online t) installed_v1)
     = (if utf8_valid_text ''v1'' \<noteq> utf8_valid_text t then NewVersionAvailable else UpToDate)"
proof -
  have "cache_match (partition_entries (caches_open STATIC_CACHE installed_v1) STATIC_CACHE)
          (resolve_url (online t) ''/index.html'') = Some (page 200 ''v1'')"
    unfolding partition_entries_open
    by (simp add: installed_v1_eq partition_entries_def cache_match_def resolve_url_def online_def
        serving_def cache_key_awa)
  moreover have "utf8_decode (online t) = utf8_valid_text"
    by (simp add: online_def serving_def)
  ultimately show ?thesis
    by (simp add: checkForUpdates_def Let_def fetch_online_index page_def)
qed

section \<open>Facts about single operations\<close>

lemma caches_open_present: "name \<in> set (caches_keys cs) \<Longrightarrow> caches_open name cs = cs"
  by (simp add: caches_open_def)

lemma caches_open_absent: "name \<notin> set (caches_keys cs) \<Longrightarrow> caches_open name cs = cs @ [(name, [])]"
  by (simp add: caches_open_def)

lemma activate_filter: "activate cs = filter (\<lambda>nc. fst nc \<in> {STATIC_CACHE, DYNAMIC_CACHE}) cs"
  by (simp add: activate_def sweep_filter cacheWhitelist_def)

lemma after_fetch_one_write:
  "writes (on_fetch e cs request) = [w] \<Longrightarrow> after_fetch e cs request = open_put cs w"
  by (simp add: after_fetch_def settle_def)

lemma after_fetch_no_write:
  "writes (on_fetch e cs request) = [] \<Longrightarrow> after_fetch e cs request = cs"
  by (simp add: after_fetch_def settle_def)

section \<open>Static assets\<close>





text \<open>
  C10. The static-asset strategy issues the write of every response its fetch resolves
  with to the dynamic cache, on a cache miss and on a cache hit (the background refresh)
  alike and without a test of the status; the caller gets the cached response on a hit
  and the network response on a miss. Once the write is applied, the dynamic cache holds
  the response under the request when the host accepts the put, and no entry of any
  cache has changed when it refuses it. The API strategy leaves the storage as it is for
  a response whose status is not 200.
\<close>

theorem static_asset_caches_any_status:
  assumes "classify request = StaticAsset"
    and "fetch e request = Inr response"
  shows "writes (on_fetch e cs request) = [(DYNAMIC_CACHE, Some (url request, response))]
         \<and> responded (on_fetch e cs request)
           = Resolved (Some (case caches_match cs (url request) of
                               Some cachedResponse \<Rightarrow> cachedResponse
                             | None \<Rightarrow> response))
         \<and> cache_match (partition_entries (after_fetch e cs request) name) v
           = (if put_accepts (url request) response \<and> name = DYNAMIC_CACHE
                 \<and> cache_key v = cache_key (url request)
              then Some response
              else cache_match (partition_entries cs name) v)
         \<and> (classify request' = ApiData \<and> fetch e' request' = Inr response'
              \<and> status response' \<noteq> 200 \<longrightarrow>
            after_fetch e' cs' request' = cs')"
proof -
  have a: "classify request' = ApiData \<and> fetch e' request' = Inr response'
              \<and> status response' \<noteq> 200 \<longrightarrow>
            after_fetch e' cs' request' = cs'"
    by (simp add: after_fetch_def settle_def on_fetch_run_strategy run_strategy_def
        api_data_strategy_def)
  have w: "writes (on_fetch e cs request) = [(DYNAMIC_CACHE, Some (url request, response))]"
    using assms
    by (simp add: on_fetch_run_strategy run_strategy_def static_asset_strategy_def
        split: option.splits)
  have r: "responded (on_fetch e cs request)
           = Resolved (Some (case caches_match cs (url request) of
                               Some cachedResponse \<Rightarrow> cachedResponse
                             | None \<Rightarrow> response))"
    using assms
    by (simp add: on_fetch_run_strategy run_strategy_def static_asset_strategy_def
        split: option.splits)
  have c: "cache_match (partition_entries (after_fetch e cs request) name) v
           = (if put_accepts (url request) response \<and> name = DYNAMIC_CACHE
                 \<and> cache_key v = cache_key (url request)
              then Some response
              else cache_match (partition_entries cs name) v)"
    unfolding after_fetch_one_write [OF w] by (rule lookup_open_put)
  show ?thesis using w r c a by blast
qed

theorem static_asset_caches_any_status_witness:
  "classify (get_request ''no-cors'' ''/app.js'') = StaticAsset
   \<and> on_fetch (serving [(awa_origin @ ''/app.js'', page 404 ''Not Found'')])
        [] (get_request ''no-cors'' ''/app.js'')
       = \<lparr>responded = Resolved (Some (page 404 ''Not Found'')),
          writes = [(DYNAMIC_CACHE,
                     Some (url (get_request ''no-cors'' ''/app.js''), page 404 ''Not Found''))]\<rparr>
   \<and> cache_match
        (partition_entries
           (after_fetch (serving [(awa_origin @ ''/app.js'', page 404 ''Not Found'')])
              [] (get_request ''no-cors'' ''/app.js''))
           DYNAMIC_CACHE)
        (url (get_request ''no-cors'' ''/app.js''))
       = Some (page 404 ''Not Found'')
   \<and> classify (get_request ''no-cors'' ''/logo.png'') = StaticAsset
   \<and> on_fetch (serving [(awa_origin @ ''/logo.png'', page 500 ''Error'')])
        installed_v1 (get_request ''no-cors'' ''/logo.png'')
       = \<lparr>responded = Resolved (Some (page 200 ''v1'')),
          writes = [(DYNAMIC_CACHE,
                     Some (url (get_request ''no-cors'' ''/logo.png''), page 500 ''Error''))]\<rparr>
   \<and> cache_match
        (partition_entries
           (after_fetch (serving [(awa_origin @ ''/logo.png'', page 500 ''Error'')])
              installed_v1 (get_request ''no-cors'' ''/logo.png''))
           DYNAMIC_CACHE)
        (url (get_request ''no-cors'' ''/logo.png''))
       = Some (page 500 ''Error'')
   \<and> classify (get_request ''cors'' ''/api/rates'') = ApiData
   \<and> after_fetch (serving [(awa_origin @ ''/api/rates'', page 404 ''Not Found'')])
        installed_v1 (get_request ''cors'' ''/api/rates'')
       = installed_v1"
proof -
  have s404: "status (page 404 ''Not Found'') \<noteq> 200"
    by (simp add: page_def)
  have p: "put_accepts (url (get_request m path)) (page 404 ''Not Found'')"
    "put_accepts (url (get_request m path)) (page 500 ''Error'')" for m path
    by (simp_all add: url_get_request put_accepts_page)
  show ?thesis
    using static_asset_caches_any_status
        [OF classify_appjs fetch_serving_one [where r = "page 404 ''Not Found''"],
          where cs = "[]" and name = DYNAMIC_CACHE and v = "url (get_request ''no-cors'' ''/app.js'')"
            and request' = "get_request ''cors'' ''/api/rates''" and cs' = installed_v1
            and response' = "page 404 ''Not Found''"
            and e' = "serving [(awa_origin @ ''/api/rates'', page 404 ''Not Found'')]"]
      static_asset_caches_any_status
        [OF classify_logo fetch_serving_one [where r = "page 500 ''Error''"],
          where cs = installed_v1 and name = DYNAMIC_CACHE
            and v = "url (get_request ''no-cors'' ''/logo.png'')"]
      classify_appjs classify_logo classify_api caches_match_installed_logo s404 p
      fetch_serving_one [where r = "page 404 ''Not Found''" and path = "''/api/rates''" and m = "''cors''"]
    by (simp add: outcome.equality)
qed

text \<open>
  A response of status 206 is one that the host refuses to put: the miss path returns it
  and the dynamic cache does not hold it afterwards.
\<close>

theorem static_asset_partial_counterexample:
  "classify (get_request ''no-cors'' ''/app.js'') = StaticAsset
   \<and> fetch (serving [(awa_origin @ ''/app.js'', page 206 ''part'')]) (get_request ''no-cors'' ''/app.js'')
       = Inr (page 206 ''part'')
   \<and> responded
        (on_fetch (serving [(awa_origin @ ''/app.js'', page 206 ''part'')])
           [] (get_request ''no-cors'' ''/app.js''))
       = Resolved (Some (page 206 ''part''))
   \<and> cache_match
        (partition_entries
           (after_fetch (serving [(awa_origin @ ''/app.js'', page 206 ''part'')])
              [] (get_request ''no-cors'' ''/app.js''))
           DYNAMIC_CACHE)
        (url (get_request ''no-cors'' ''/app.js''))
       = None
   \<and> caches_match
        (after_fetch (serving [(awa_origin @ ''/app.js'', page 206 ''part'')])
           [] (get_request ''no-cors'' ''/app.js''))
        (url (get_request ''no-cors'' ''/app.js''))
       = None"
proof -
  have o: "on_fetch (serving [(awa_origin @ ''/app.js'', page 206 ''part'')])
           [] (get_request ''no-cors'' ''/app.js'')
       = \<lparr>responded = Resolved (Some (page 206 ''part'')),
          writes = [(DYNAMIC_CACHE, Some (url (get_request ''no-cors'' ''/app.js''), page 206 ''part''))]\<rparr>"
    by (simp add: on_fetch_run_strategy classify_appjs run_strategy_def static_asset_strategy_def
        fetch_serving_one)
  have n: "\<not> put_accepts (url (get_request ''no-cors'' ''/app.js'')) (page 206 ''part'')"
    by (simp add: url_get_request put_accepts_page)
  have a: "after_fetch (serving [(awa_origin @ ''/app.js'', page 206 ''part'')])
              [] (get_request ''no-cors'' ''/app.js'')
       = [(DYNAMIC_CACHE, [])]"
    unfolding after_fetch_def o using n
    by (simp add: settle_def caches_open_def caches_keys_def cache_put_def)
  show ?thesis
    unfolding a o
    by (simp add: classify_appjs fetch_serving_one partition_entries_def cache_match_def)
qed

section \<open>API and data requests\<close>

text \<open>
  C4. A request routed to the API strategy. When the fetch resolves, the response is
  returned, and its write to the dynamic cache is issued exactly when its status is 200;
  once the writes are applied, the dynamic cache holds the response under the request
  exactly when the status is 200 and the host accepts the put, and no other entry of
  any cache has changed; for a status other than 200 the storage is as it was. When the
  fetch rejects, the listener responds with the result of \<^verbatim>\<open>caches.match\<close> over all
  caches and writes nothing, so without a cached entry it responds with
  \<^verbatim>\<open>undefined\<close> and the request fails.
\<close>

theorem api_data_network_first:
  assumes "classify request = ApiData"
  shows "(fetch e request = Inr response \<longrightarrow>
            responded (on_fetch e cs request) = Resolved (Some response)
            \<and> writes (on_fetch e cs request)
              = (if status response = 200
                 then [(DYNAMIC_CACHE, Some (url request, response))] else [])
            \<and> (status response \<noteq> 200 \<longrightarrow> after_fetch e cs request = cs)
            \<and> cache_match (partition_entries (after_fetch e cs request) name) v
              = (if status response = 200 \<and> put_accepts (url request) response
                    \<and> name = DYNAMIC_CACHE \<and> cache_key v = cache_key (url request)
                 then Some response
                 else cache_match (partition_entries cs name) v))
         \<and> (fetch e request = Inl err \<longrightarrow>
              on_fetch e cs request
                = \<lparr>responded = Resolved (caches_match cs (url request)), writes = []\<rparr>
              \<and> after_fetch e cs request = cs)"
proof -
  have rej: "fetch e request = Inl err \<longrightarrow>
              on_fetch e cs request
                = \<lparr>responded = Resolved (caches_match cs (url request)), writes = []\<rparr>
              \<and> after_fetch e cs request = cs"
    using assms
    by (simp add: after_fetch_def settle_def on_fetch_run_strategy run_strategy_def
        api_data_strategy_def)
  have res: "responded (on_fetch e cs request) = Resolved (Some response)
            \<and> writes (on_fetch e cs request)
              = (if status response = 200
                 then [(DYNAMIC_CACHE, Some (url request, response))] else [])"
    if "fetch e request = Inr response"
    using assms that
    by (simp add: on_fetch_run_strategy run_strategy_def api_data_strategy_def)
  have same: "after_fetch e cs request = cs"
    if "fetch e request = Inr response" "status response \<noteq> 200"
    using res [OF that(1)] that(2) by (simp add: after_fetch_no_write)
  have look: "cache_match (partition_entries (after_fetch e cs request) name) v
              = (if status response = 200 \<and> put_accepts (url request) response
                    \<and> name = DYNAMIC_CACHE \<and> cache_key v = cache_key (url request)
                 then Some response
                 else cache_match (partition_entries cs name) v)"
    if f: "fetch e request = Inr response"
  proof (cases "status response = 200")
    case True
    with res [OF f]
    have "after_fetch e cs request = open_put cs (DYNAMIC_CACHE, Some (url request, response))"
      by (simp add: after_fetch_one_write)
    with True show ?thesis
      by (simp add: lookup_open_put del: open_put.simps)
  next
    case False
    with same [OF f] show ?thesis by simp
  qed
  show ?thesis using rej res same look by blast
qed

theorem api_data_network_first_witness:
  "classify (get_request ''cors'' ''/api/rates'') = ApiData
   \<and> responded
        (on_fetch (serving [(awa_origin @ ''/api/rates'', page 200 ''[1]'')])
           installed_v1 (get_request ''cors'' ''/api/rates''))
       = Resolved (Some (page 200 ''[1]''))
   \<and> cache_match
        (partition_entries
           (after_fetch (serving [(awa_origin @ ''/api/rates'', page 200 ''[1]'')])
              installed_v1 (get_request ''cors'' ''/api/rates''))
           DYNAMIC_CACHE)
        (url (get_request ''cors'' ''/api/rates''))
       = Some (page 200 ''[1]'')
   \<and> responded
        (on_fetch (serving [(awa_origin @ ''/api/rates'', page 500 ''failed'')])
           installed_v1 (get_request ''cors'' ''/api/rates''))
       = Resolved (Some (page 500 ''failed''))
   \<and> after_fetch (serving [(awa_origin @ ''/api/rates'', page 500 ''failed'')])
        installed_v1 (get_request ''cors'' ''/api/rates'')
       = installed_v1
   \<and> responded
        (on_fetch no_network
           (after_fetch (serving [(awa_origin @ ''/api/rates'', page 200 ''[1]'')])
              installed_v1 (get_request ''cors'' ''/api/rates''))
           (get_request ''cors'' ''/api/rates''))
       = Resolved (Some (page 200 ''[1]''))
   \<and> responded (on_fetch no_network installed_v1 (get_request ''cors'' ''/api/rates''))
       = Resolved None"
proof -
  have s200: "status (page 200 ''[1]'') = 200" and s500: "status (page 500 ''failed'') \<noteq> 200"
    by (simp_all add: page_def)
  have p: "put_accepts (url (get_request ''cors'' ''/api/rates'')) (page 200 ''[1]'')"
    by (simp add: url_get_request put_accepts_page)
  have m: "caches_match installed_v1 (url (get_request ''cors'' ''/api/rates'')) = None"
    by (rule caches_match_installed_none)
  have stored: "caches_match
        (after_fetch (serving [(awa_origin @ ''/api/rates'', page 200 ''[1]'')])
           installed_v1 (get_request ''cors'' ''/api/rates''))
        (url (get_request ''cors'' ''/api/rates''))
       = Some (page 200 ''[1]'')"
    using api_data_network_first [OF classify_api,
        of "serving [(awa_origin @ ''/api/rates'', page 200 ''[1]'')]" "page 200 ''[1]''" installed_v1]
      s200 m p
    by (simp add: fetch_serving_one after_fetch_one_write caches_match_open_put
        del: open_put.simps)
  show ?thesis
    using api_data_network_first [OF classify_api,
        where e = "serving [(awa_origin @ ''/api/rates'', page 200 ''[1]'')]"
          and response = "page 200 ''[1]''" and cs = installed_v1 and name = DYNAMIC_CACHE
          and v = "url (get_request ''cors'' ''/api/rates'')"]
      api_data_network_first [OF classify_api,
        where e = "serving [(awa_origin @ ''/api/rates'', page 500 ''failed'')]"
          and response = "page 500 ''failed''" and cs = installed_v1]
      api_data_network_first [OF classify_api,
        where e = no_network and err = FetchFailed
          and cs = "after_fetch (serving [(awa_origin @ ''/api/rates'', page 200 ''[1]'')])
              installed_v1 (get_request ''cors'' ''/api/rates'')"]
      api_data_network_first [OF classify_api,
        where e = no_network and err = FetchFailed and cs = installed_v1]
      classify_api fetch_serving_one fetch_no_network s200 s500 p m stored
    by simp
qed

text \<open>
  Status 200 alone does not store the copy: a response with the header \<open>Vary: *\<close> is
  one that the host refuses to put, and the dynamic cache does not hold it afterwards.
\<close>

theorem api_data_vary_counterexample:
  "classify (get_request ''cors'' ''/api/rates'') = ApiData
   \<and> status \<lparr>status = 200, headers = [(''Vary'', ''*'')], body = ''[1]''\<rparr> = 200
   \<and> responded
        (on_fetch
           (serving [(awa_origin @ ''/api/rates'',
                      \<lparr>status = 200, headers = [(''Vary'', ''*'')], body = ''[1]''\<rparr>)])
           [] (get_request ''cors'' ''/api/rates''))
       = Resolved (Some \<lparr>status = 200, headers = [(''Vary'', ''*'')], body = ''[1]''\<rparr>)
   \<and> cache_match
        (partition_entries
           (after_fetch
              (serving [(awa_origin @ ''/api/rates'',
                         \<lparr>status = 200, headers = [(''Vary'', ''*'')], body = ''[1]''\<rparr>)])
              [] (get_request ''cors'' ''/api/rates''))
           DYNAMIC_CACHE)
        (url (get_request ''cors'' ''/api/rates''))
       = None"
proof -
  have o: "on_fetch
           (serving [(awa_origin @ ''/api/rates'',
                      \<lparr>status = 200, headers = [(''Vary'', ''*'')], body = ''[1]''\<rparr>)])
           [] (get_request ''cors'' ''/api/rates'')
       = \<lparr>responded = Resolved (Some \<lparr>status = 200, headers = [(''Vary'', ''*'')], body = ''[1]''\<rparr>),
          writes = [(DYNAMIC_CACHE,
                     Some (url (get_request ''cors'' ''/api/rates''),
                           \<lparr>status = 200, headers = [(''Vary'', ''*'')], body = ''[1]''\<rparr>))]\<rparr>"
    by (simp add: on_fetch_run_strategy classify_api run_strategy_def api_data_strategy_def
        fetch_serving_one)
  have n: "\<not> put_accepts u \<lparr>status = 200, headers = [(''Vary'', ''*'')], body = ''[1]''\<rparr>" for u
    by (simp add: put_accepts_def vary_star_def header_values_def trim_def is_blank_def)
  show ?thesis
    unfolding after_fetch_def o using n
    by (simp add: classify_api settle_def caches_open_def caches_keys_def cache_put_def
        partition_entries_def cache_match_def)
qed

section \<open>The update check\<close>

text \<open>
  C5. When the static cache holds no \<^verbatim>\<open>/index.html\<close>, the update check raises no
  notification and never signals a new version; it is up to date when the fetch of
  \<^verbatim>\<open>/index.html\<close> resolves, and a failed check when the fetch rejects.
\<close>

theorem first_run_no_alarm:
  assumes "cache_match (partition_entries cs STATIC_CACHE) (resolve_url e ''/index.html'') = None"
  shows "notifications (checkForUpdates e cs) = []
         \<and> result (checkForUpdates e cs) \<noteq> NewVersionAvailable
         \<and> result (checkForUpdates e cs)
           = (case fetch e (mk_request (resolve_url e ''/index.html'')) of
                Inr response \<Rightarrow> UpToDate
              | Inl err \<Rightarrow> CheckFailed)"
  using assms
  by (simp add: checkForUpdates_def Let_def partition_entries_open split: sum.splits)

theorem first_run_no_alarm_witness:
  "cache_match (partition_entries [] STATIC_CACHE) (resolve_url (online ''v1'') ''/index.html'') = None
   \<and> notifications (checkForUpdates (online ''v1'') []) = []
   \<and> result (checkForUpdates (online ''v1'') []) = UpToDate"
proof -
  have h: "cache_match (partition_entries [] STATIC_CACHE) (resolve_url (online ''v1'') ''/index.html'') = None"
    by (simp add: partition_entries_def cache_match_def)
  show ?thesis
    using first_run_no_alarm [OF h] h fetch_online_index [of "''v1''"] by simp
qed

text \<open>
  Without the condition on the fetch the statement fails: with no cache at all and no
  network, the check ends in its \<^verbatim>\<open>catch\<close> block.
\<close>

theorem first_run_offline_counterexample:
  "cache_match (partition_entries [] STATIC_CACHE) (resolve_url no_network ''/index.html'') = None
   \<and> result (checkForUpdates no_network []) = CheckFailed
   \<and> result (checkForUpdates no_network []) \<noteq> UpToDate"
  by (simp add: checkForUpdates_def fetch_no_network partition_entries_def cache_match_def)

text \<open>
  C6. The update check writes to no cache: the entries of the cache of every name, and
  the result of every lookup, are the same before and after it, whether it signals a new
  version, finds the texts equal or fails. The storage itself is unchanged when the
  static cache exists; when it does not, opening it has created it, empty.
\<close>

theorem checkForUpdates_writes_nothing:
  "partition_entries (storage (checkForUpdates e cs)) name = partition_entries cs name
   \<and> caches_match (storage (checkForUpdates e cs)) u = caches_match cs u
   \<and> (STATIC_CACHE \<in> set (caches_keys cs) \<longrightarrow> storage (checkForUpdates e cs) = cs)
   \<and> (STATIC_CACHE \<notin> set (caches_keys cs) \<longrightarrow>
        storage (checkForUpdates e cs) = cs @ [(STATIC_CACHE, [])])"
  by (simp add: storage_checkForUpdates partition_entries_open caches_match_open
      caches_open_present caches_open_absent)

theorem checkForUpdates_writes_nothing_witness:
  "STATIC_CACHE \<in> set (caches_keys installed_v1)
   \<and> result (checkForUpdates (online ''v2'') installed_v1) = NewVersionAvailable
   \<and> storage (checkForUpdates (online ''v2'') installed_v1) = installed_v1
   \<and> result (checkForUpdates (online ''v1'') installed_v1) = UpToDate
   \<and> storage (checkForUpdates (online ''v1'') installed_v1) = installed_v1
   \<and> result (checkForUpdates no_network installed_v1) = CheckFailed
   \<and> storage (checkForUpdates no_network installed_v1) = installed_v1
   \<and> storage (checkForUpdates no_network []) = [(STATIC_CACHE, [])]"
proof -
  have k: "STATIC_CACHE \<in> set (caches_keys installed_v1)"
    by (simp add: installed_v1_eq caches_keys_def)
  have n: "STATIC_CACHE \<notin> set (caches_keys [])"
    by (simp add: caches_keys_def)
  have f: "result (checkForUpdates no_network installed_v1) = CheckFailed"
    by (simp add: checkForUpdates_def fetch_no_network)
  have t: "utf8_valid_text ''v1'' \<noteq> utf8_valid_text ''v2''"
    by (simp add: utf8_valid_text_def startsWith_def)
  show ?thesis
    using checkForUpdates_writes_nothing [of "online ''v2''" installed_v1]
      checkForUpdates_writes_nothing [of "online ''v1''" installed_v1]
      checkForUpdates_writes_nothing [of no_network installed_v1]
      checkForUpdates_writes_nothing [of no_network "[]"]
      k n f t result_checkForUpdates_installed
    by simp
qed

section \<open>The static cache\<close>

text \<open>
  C9. Every write that the fetch listener or the message listener issues goes to the
  dynamic cache, so the entries of the static cache are the same after either; the
  update check and the activation sweep of this worker leave them unchanged too.
\<close>

theorem static_partition_untouched:
  "list_all (\<lambda>w. fst w = DYNAMIC_CACHE) (writes (on_fetch e cs request))
   \<and> list_all (\<lambda>w. fst w = DYNAMIC_CACHE) (msg_writes (on_message e data))
   \<and> partition_entries (after_fetch e cs request) STATIC_CACHE = partition_entries cs STATIC_CACHE
   \<and> partition_entries (settle cs (msg_writes (on_message e data))) STATIC_CACHE
       = partition_entries cs STATIC_CACHE
   \<and> partition_entries (storage (checkForUpdates e cs)) STATIC_CACHE
       = partition_entries cs STATIC_CACHE
   \<and> partition_entries (activate cs) STATIC_CACHE = partition_entries cs STATIC_CACHE"
proof -
  have f: "partition_entries (after_fetch e cs request) STATIC_CACHE = partition_entries cs STATIC_CACHE"
    by (rule partition_entries_after_fetch) (rule static_not_dynamic)
  have "list_all (\<lambda>w. fst w \<noteq> STATIC_CACHE) (msg_writes (on_message e data))"
    using writes_on_message_dynamic [of e data] static_not_dynamic
    by (auto simp: list_all_iff)
  then have m: "partition_entries (settle cs (msg_writes (on_message e data))) STATIC_CACHE
       = partition_entries cs STATIC_CACHE"
    by (rule partition_entries_settle)
  have u: "partition_entries (storage (checkForUpdates e cs)) STATIC_CACHE
       = partition_entries cs STATIC_CACHE"
    by (simp add: storage_checkForUpdates partition_entries_open)
  have a: "partition_entries (activate cs) STATIC_CACHE = partition_entries cs STATIC_CACHE"
    unfolding activate_filter by (rule partition_entries_filter) simp
  show ?thesis
    using writes_on_fetch_dynamic [of e cs request] writes_on_message_dynamic [of e data] f m u a
    by blast
qed

end
